theory Spec2Isabelle
  imports Complex_Main
begin

section \<open>The user store (app.py, "user helpers")\<close>

text \<open>
  The store is one JSON file, \<^verbatim>\<open>users.json\<close>. A user is the dictionary that
  \<^verbatim>\<open>init_users\<close> and \<^verbatim>\<open>create_user\<close> write; the file holds the list of users and
  the counter \<^verbatim>\<open>next_id\<close>. Every record the program writes carries all six keys, so
  \<^verbatim>\<open>u.get("email")\<close> is the field \<open>email\<close>.
\<close>

record user =
  user_id :: int
  username :: string
  password_hash :: string
  role :: string
  email :: string
  created_at :: string

record user_db =
  users :: "user list"
  next_id :: int

text \<open>
  What is on disk under \<^verbatim>\<open>USERS_FILE\<close>: nothing, content that \<^verbatim>\<open>json.load\<close> rejects
  (an empty or cut-off file included), or the JSON text of a store.
\<close>

datatype users_file = Absent | Malformed | Stored user_db

datatype error = JSONDecodeError | KeyError | ValueError | ZeroDivisionError

text \<open>
  \<^verbatim>\<open>generate_password_hash\<close> and \<^verbatim>\<open>check_password_hash\<close> come from werkzeug and
  \<^verbatim>\<open>datetime.utcnow\<close> from the standard library. They are parameters of the model:
  \<open>gen\<close> is the (salted) hash function one call uses, \<open>chk\<close> the verification,
  \<open>now\<close> the time stamp read.
\<close>

type_synonym hasher = "string \<Rightarrow> string"
type_synonym verifier = "string \<Rightarrow> string \<Rightarrow> bool"

definition seed_db :: "hasher \<Rightarrow> string \<Rightarrow> user_db" where
  "seed_db gen now =
     \<lparr>users = [\<lparr>user_id = 1, username = ''admin'',
                 password_hash = gen ''password'',
                 role = ''Administrator'', email = ''admin@minerals.local'',
                 created_at = now\<rparr>],
      next_id = 2\<rparr>"

definition init_users :: "hasher \<Rightarrow> string \<Rightarrow> users_file \<Rightarrow> users_file" where
  "init_users gen now file =
     (case file of Absent \<Rightarrow> Stored (seed_db gen now) | _ \<Rightarrow> file)"

definition load_users ::
  "hasher \<Rightarrow> string \<Rightarrow> users_file \<Rightarrow> error + (user_db \<times> users_file)" where
  "load_users gen now file =
     (case init_users gen now file of
        Stored db \<Rightarrow> Inr (db, Stored db)
      | _ \<Rightarrow> Inl JSONDecodeError)"

text \<open>
  \<^verbatim>\<open>save_users\<close> opens the store file itself with mode \<^verbatim>\<open>"w"\<close>, which empties
  it, and then dumps the JSON text into it. The two effects are kept apart so that
  the state between them can be named.
\<close>

datatype file_op = Open_w | Dump user_db

fun apply_file_op :: "file_op \<Rightarrow> users_file \<Rightarrow> users_file" where
  "apply_file_op Open_w file = Malformed"
| "apply_file_op (Dump data) file = Stored data"

definition save_users_ops :: "user_db \<Rightarrow> file_op list" where
  "save_users_ops data = [Open_w, Dump data]"

definition interrupted_after :: "nat \<Rightarrow> file_op list \<Rightarrow> users_file \<Rightarrow> users_file" where
  "interrupted_after k ops file = fold apply_file_op (take k ops) file"

definition save_users :: "user_db \<Rightarrow> users_file \<Rightarrow> users_file" where
  "save_users data file = fold apply_file_op (save_users_ops data) file"

definition create_user ::
  "hasher \<Rightarrow> string \<Rightarrow> string \<Rightarrow> string \<Rightarrow> string \<Rightarrow> string \<Rightarrow> users_file
     \<Rightarrow> error + users_file" where
  "create_user gen now uname password rl mail file =
     (case load_users gen now file of
        Inl e \<Rightarrow> Inl e
      | Inr (db, file') \<Rightarrow>
          let mail' = (if mail = [] then uname @ ''@minerals.local'' else mail);
              db' = \<lparr>users = users db @
                            [\<lparr>user_id = next_id db, username = uname,
                              password_hash = gen password, role = rl,
                              email = mail', created_at = now\<rparr>],
                     next_id = next_id db + 1\<rparr>
          in Inr (save_users db' file'))"

text \<open>The \<^verbatim>\<open>for\<close> loop of \<^verbatim>\<open>authenticate\<close> over \<^verbatim>\<open>users["users"]\<close>.\<close>

fun authenticate_loop :: "verifier \<Rightarrow> string \<Rightarrow> string \<Rightarrow> user list \<Rightarrow> user option" where
  "authenticate_loop chk login_id password [] = None"
| "authenticate_loop chk login_id password (u # us) =
     (if login_id = username u \<or> login_id = email u then
        (if chk (password_hash u) password then Some u
         else authenticate_loop chk login_id password us)
      else authenticate_loop chk login_id password us)"

definition authenticate ::
  "hasher \<Rightarrow> string \<Rightarrow> verifier \<Rightarrow> string \<Rightarrow> string \<Rightarrow> users_file
     \<Rightarrow> error + (user option \<times> users_file)" where
  "authenticate gen now chk login_id password file =
     (case load_users gen now file of
        Inl e \<Rightarrow> Inl e
      | Inr (db, file') \<Rightarrow> Inr (authenticate_loop chk login_id password (users db), file'))"

text \<open>
  A user accepts a login when the identifier is its username or its email and the
  password verifies against its hash.
\<close>

definition accepts :: "verifier \<Rightarrow> string \<Rightarrow> string \<Rightarrow> user \<Rightarrow> bool" where
  "accepts chk login_id password u =
     ((login_id = username u \<or> login_id = email u) \<and> chk (password_hash u) password)"

text \<open>
  A stand-in for the werkzeug pair, used only where a statement is instantiated at
  concrete data. It has the one property of the library the development relies on: a
  hash verifies the password it was made from.
\<close>

definition plain_hash :: hasher where
  "plain_hash p = ''plain$'' @ p"

definition plain_check :: verifier where
  "plain_check h p = (h = ''plain$'' @ p)"

subsection \<open>Registration and user deletion (the handlers of the two buttons)\<close>

text \<open>
  \<^verbatim>\<open>str.strip()\<close> removes leading and trailing white space. Characters are the
  code points below 256; the white space among them is what \<^verbatim>\<open>str.isspace\<close>
  accepts there.
\<close>

definition is_space :: "char \<Rightarrow> bool" where
  "is_space c = (c \<in> set [CHR 0x09, CHR 0x0A, CHR 0x0B, CHR 0x0C, CHR 0x0D, CHR 0x1C,
                            CHR 0x1D, CHR 0x1E, CHR 0x1F, CHR 0x20, CHR 0x85, CHR 0xA0])"

definition strip :: "string \<Rightarrow> string" where
  "strip s = rev (dropWhile is_space (rev (dropWhile is_space s)))"

datatype reg_result =
  PasswordMismatch | MissingFields | InvalidAdminCode | DuplicateUsername | Registered

text \<open>
  The body of \<^verbatim>\<open>if st.button("Register")\<close> in \<^verbatim>\<open>auth_section\<close>. The messages
  are named after the spec's errors. \<open>admin_secret\<close> is \<^verbatim>\<open>ADMIN_SECRET\<close>, read from
  the environment; \<open>code_input\<close> is what the administrator-code field holds, a field
  that exists only for the role Administrator.
\<close>

definition register_click ::
  "string \<Rightarrow> hasher \<Rightarrow> string \<Rightarrow> string \<Rightarrow> string \<Rightarrow> string \<Rightarrow> string \<Rightarrow> string \<Rightarrow> string
     \<Rightarrow> users_file \<Rightarrow> error + (reg_result \<times> users_file)" where
  "register_click admin_secret gen now u mail rl pw conf code_input file =
     (let admin_code = (if rl = ''Administrator'' then code_input else [])
      in if pw \<noteq> conf then Inr (PasswordMismatch, file)
         else if u = [] \<or> pw = [] then Inr (MissingFields, file)
         else if rl = ''Administrator'' \<and> admin_code \<noteq> admin_secret
           then Inr (InvalidAdminCode, file)
         else (case load_users gen now file of
                 Inl e \<Rightarrow> Inl e
               | Inr (db, file') \<Rightarrow>
                   if list_ex (\<lambda>x. username x = u) (users db)
                   then Inr (DuplicateUsername, file')
                   else (case create_user gen now u pw rl (strip mail) file' of
                           Inl e \<Rightarrow> Inl e
                         | Inr file'' \<Rightarrow> Inr (Registered, file''))))"

text \<open>
  "Manage Users" in \<^verbatim>\<open>admin_view\<close>: the table and the delete button are shown only
  when the store has a user; \<open>uid\<close> is the value of the number input.
\<close>

definition delete_user_click ::
  "hasher \<Rightarrow> string \<Rightarrow> int \<Rightarrow> users_file \<Rightarrow> error + users_file" where
  "delete_user_click gen now uid file =
     (case load_users gen now file of
        Inl e \<Rightarrow> Inl e
      | Inr (db, file') \<Rightarrow>
          if users db = [] then Inr file'
          else Inr (save_users (db\<lparr>users := filter (\<lambda>u. user_id u \<noteq> uid) (users db)\<rparr>) file'))"

section \<open>Tables (app.py, "data loading")\<close>

text \<open>
  A pandas \<^verbatim>\<open>DataFrame\<close> is its column labels and its rows. A cell is a number, a
  string, or the missing value \<^verbatim>\<open>NaN\<close>; numbers are taken as reals, without the
  rounding of floating point. The operations of pandas the program calls
  (\<^verbatim>\<open>read_csv\<close>, \<^verbatim>\<open>DataFrame.empty\<close>, \<^verbatim>\<open>merge\<close>, \<^verbatim>\<open>to_numeric\<close>, \<^verbatim>\<open>mean\<close>,
  \<^verbatim>\<open>dropna\<close>, \<^verbatim>\<open>unique\<close>) are library code; they are modelled here from their
  documented behaviour on frames as \<^verbatim>\<open>read_csv\<close> produces them: frames with
  distinct column labels whose columns hold numbers or strings, with \<^verbatim>\<open>NaN\<close> for an
  empty field.
\<close>

datatype cell = NaN | Num real | Str string

record frame =
  columns :: "string list"
  rows :: "cell list list"

definition DataFrame :: "string list \<Rightarrow> frame" where
  "DataFrame cols = \<lparr>columns = cols, rows = []\<rparr>"

text \<open>
  \<^verbatim>\<open>df.empty\<close> holds when an axis has length zero: no column or no row.
\<close>

definition empty_df :: "frame \<Rightarrow> bool" where
  "empty_df df = (columns df = [] \<or> rows df = [])"


text \<open>
  Position of a label among the columns, the cell of a row at a position (a short row
  reads as missing), and the row without the cell at a position.
\<close>

fun index_of :: "'a \<Rightarrow> 'a list \<Rightarrow> nat option" where
  "index_of x [] = None"
| "index_of x (y # ys) = (if x = y then Some 0 else map_option Suc (index_of x ys))"

definition cell_at :: "cell list \<Rightarrow> nat \<Rightarrow> cell" where
  "cell_at r i = (if i < length r then r ! i else NaN)"

definition drop_at :: "nat \<Rightarrow> 'a list \<Rightarrow> 'a list" where
  "drop_at i xs = take i xs @ drop (Suc i) xs"

text \<open>\<^verbatim>\<open>r.get(c)\<close> on a row of \<open>df\<close>: none when \<open>df\<close> has no column \<open>c\<close>.\<close>

definition row_get :: "frame \<Rightarrow> cell list \<Rightarrow> string \<Rightarrow> cell option" where
  "row_get df r c = map_option (cell_at r) (index_of c (columns df))"

text \<open>
  A source file is absent, present with content that \<^verbatim>\<open>read_csv\<close> rejects (a
  zero-byte file, for one), or present with content that parses to a frame.
  \<^verbatim>\<open>safe_read\<close> returns the parsed frame, \<^verbatim>\<open>pd.DataFrame()\<close> from the bare
  \<^verbatim>\<open>except\<close>, and \<^verbatim>\<open>pd.DataFrame(columns=cols)\<close> for an absent file when
  \<open>cols\<close> is given and not empty.
\<close>

datatype csv_file = Missing | Unreadable | Csv frame

definition safe_read :: "csv_file \<Rightarrow> string list option \<Rightarrow> frame" where
  "safe_read file cols =
     (case file of
        Csv df \<Rightarrow> df
      | Unreadable \<Rightarrow> DataFrame []
      | Missing \<Rightarrow>
          (case cols of
             None \<Rightarrow> DataFrame []
           | Some cs \<Rightarrow> if cs \<noteq> [] then DataFrame cs else DataFrame []))"

text \<open>
  \<^verbatim>\<open>left.merge(right, on=key)\<close>, an inner join. It raises \<^verbatim>\<open>KeyError\<close> when a
  side has no column \<open>key\<close>, and \<^verbatim>\<open>ValueError\<close> when both sides have rows and one
  key column holds strings while the other holds none. Otherwise each left row is
  paired, in order, with the right rows of equal key (two missing keys are equal, as in
  pandas); the result row is the left row followed by the right row without its key.
  A label other than the key that both sides carry gets the suffixes \<^verbatim>\<open>_x\<close> and
  \<^verbatim>\<open>_y\<close>; the column lists of the four sources share no label but the keys.
\<close>

definition is_str :: "cell \<Rightarrow> bool" where
  "is_str c = (case c of Str _ \<Rightarrow> True | _ \<Rightarrow> False)"

definition has_str :: "frame \<Rightarrow> nat \<Rightarrow> bool" where
  "has_str df i = list_ex (\<lambda>r. is_str (cell_at r i)) (rows df)"

definition merge :: "frame \<Rightarrow> frame \<Rightarrow> string \<Rightarrow> error + frame" where
  "merge left right on =
     (case index_of on (columns left) of
        None \<Rightarrow> Inl KeyError
      | Some i \<Rightarrow>
          (case index_of on (columns right) of
             None \<Rightarrow> Inl KeyError
           | Some j \<Rightarrow>
               if rows left \<noteq> [] \<and> rows right \<noteq> [] \<and> has_str left i \<noteq> has_str right j
               then Inl ValueError
               else Inr \<lparr>columns =
                           map (\<lambda>c. if c \<noteq> on \<and> c \<in> set (columns right) then c @ ''_x'' else c)
                               (columns left)
                           @ map (\<lambda>c. if c \<in> set (columns left) then c @ ''_y'' else c)
                               (drop_at j (columns right)),
                         rows =
                           concat (map (\<lambda>l. map (\<lambda>r. l @ drop_at j r)
                                               (filter (\<lambda>r. cell_at r j = cell_at l i) (rows right)))
                                       (rows left))\<rparr>))"

text \<open>
  The chained call
  \<^verbatim>\<open>facts.merge(countries, on="CountryID").merge(minerals, on="MineralID")\<close>.
\<close>

definition merge_both :: "frame \<Rightarrow> frame \<Rightarrow> frame \<Rightarrow> error + frame" where
  "merge_both facts countries minerals =
     (case merge facts countries ''CountryID'' of
        Inl e \<Rightarrow> Inl e
      | Inr fc \<Rightarrow> merge fc minerals ''MineralID'')"

text \<open>The column lists passed to \<^verbatim>\<open>safe_read\<close>.\<close>

definition countries_cols :: "string list" where
  "countries_cols = [''CountryID'', ''CountryName'', ''GDP_BillionUSD'',
                     ''MiningRevenue_BillionUSD'', ''KeyProjects'']"

definition minerals_cols :: "string list" where
  "minerals_cols = [''MineralID'', ''MineralName'', ''Description'']"

definition production_cols :: "string list" where
  "production_cols = [''CountryID'', ''MineralID'', ''Production_tonnes'',
                      ''ExportValue_BillionUSD'']"

definition sites_cols :: "string list" where
  "sites_cols = [''SiteID'', ''SiteName'', ''CountryID'', ''MineralID'', ''Latitude'',
                 ''Longitude'', ''Production_tonnes'']"

text \<open>
  The four files under \<^verbatim>\<open>DATA_DIR\<close> and \<^verbatim>\<open>load_data\<close>. Each \<^verbatim>\<open>try\<close> block
  replaces the table by the join only when the whole chained merge succeeds; a raise
  leaves the table as read.
\<close>

record data_dir =
  countries_csv :: csv_file
  minerals_csv :: csv_file
  production_stats_csv :: csv_file
  sites_csv :: csv_file

definition load_data :: "data_dir \<Rightarrow> frame \<times> frame \<times> frame \<times> frame" where
  "load_data d =
     (let countries = safe_read (countries_csv d) (Some countries_cols);
          minerals = safe_read (minerals_csv d) (Some minerals_cols);
          production = safe_read (production_stats_csv d) (Some production_cols);
          sites = safe_read (sites_csv d) (Some sites_cols);
          production' =
            (if \<not> empty_df production \<and> \<not> empty_df countries \<and> \<not> empty_df minerals
             then (case merge_both production countries minerals of
                     Inl e \<Rightarrow> production
                   | Inr joined \<Rightarrow> joined)
             else production);
          sites' =
            (if \<not> empty_df sites \<and> \<not> empty_df countries \<and> \<not> empty_df minerals
             then (case merge_both sites countries minerals of
                     Inl e \<Rightarrow> sites
                   | Inr joined \<Rightarrow> joined)
             else sites)
      in (countries, minerals, production', sites'))"


section \<open>The map (app.py, "map helper")\<close>

text \<open>
  A Python float is a real number or \<^verbatim>\<open>nan\<close>. \<^verbatim>\<open>float(x)\<close> and \<^verbatim>\<open>int(x)\<close> on a
  cell: a missing cell is the float \<^verbatim>\<open>nan\<close>, which \<^verbatim>\<open>float\<close> returns and \<^verbatim>\<open>int\<close>
  rejects; a number converts (\<^verbatim>\<open>int\<close> truncates towards zero); a string goes through
  Python's parser, a parameter that answers none where Python raises
  \<^verbatim>\<open>ValueError\<close>. \<^verbatim>\<open>pd.to_numeric(..., errors="coerce")\<close> has a parser of its own,
  another parameter, and yields \<^verbatim>\<open>nan\<close> where it fails.
\<close>

datatype pyfloat = NotANumber | Float real

type_synonym float_parser = "string \<Rightarrow> pyfloat option"
type_synonym int_parser = "string \<Rightarrow> int option"

definition py_float :: "float_parser \<Rightarrow> cell \<Rightarrow> error + pyfloat" where
  "py_float parse c =
     (case c of
        NaN \<Rightarrow> Inr NotANumber
      | Num x \<Rightarrow> Inr (Float x)
      | Str s \<Rightarrow> (case parse s of None \<Rightarrow> Inl ValueError | Some f \<Rightarrow> Inr f))"

definition py_int :: "int_parser \<Rightarrow> cell \<Rightarrow> error + int" where
  "py_int parse c =
     (case c of
        NaN \<Rightarrow> Inl ValueError
      | Num x \<Rightarrow> Inr (if 0 \<le> x then \<lfloor>x\<rfloor> else \<lceil>x\<rceil>)
      | Str s \<Rightarrow> (case parse s of None \<Rightarrow> Inl ValueError | Some n \<Rightarrow> Inr n))"

definition to_numeric :: "float_parser \<Rightarrow> cell \<Rightarrow> pyfloat" where
  "to_numeric parse c =
     (case c of
        NaN \<Rightarrow> NotANumber
      | Num x \<Rightarrow> Float x
      | Str s \<Rightarrow> (case parse s of None \<Rightarrow> NotANumber | Some f \<Rightarrow> f))"

text \<open>
  \<^verbatim>\<open>Series.mean()\<close> skips \<^verbatim>\<open>nan\<close> and is \<^verbatim>\<open>nan\<close> when nothing is left.
\<close>

fun finite_values :: "pyfloat list \<Rightarrow> real list" where
  "finite_values [] = []"
| "finite_values (NotANumber # fs) = finite_values fs"
| "finite_values (Float x # fs) = x # finite_values fs"

definition mean :: "pyfloat list \<Rightarrow> pyfloat" where
  "mean fs =
     (let xs = finite_values fs
      in if xs = [] then NotANumber else Float (sum_list xs / real (length xs)))"

text \<open>
  \<^verbatim>\<open>lat or 0\<close>: the left operand when it is truthy, else 0. A float is falsy only
  when it equals zero; \<^verbatim>\<open>nan\<close> is truthy.
\<close>

definition truthy :: "pyfloat \<Rightarrow> bool" where
  "truthy f = (case f of NotANumber \<Rightarrow> True | Float x \<Rightarrow> x \<noteq> 0)"

definition or_0 :: "pyfloat \<Rightarrow> pyfloat" where
  "or_0 f = (if truthy f then f else Float 0)"

text \<open>\<^verbatim>\<open>df[c]\<close>: the cells of a column, \<^verbatim>\<open>KeyError\<close> without it.\<close>

definition column :: "frame \<Rightarrow> string \<Rightarrow> error + cell list" where
  "column df c =
     (case index_of c (columns df) of
        None \<Rightarrow> Inl KeyError
      | Some i \<Rightarrow> Inr (map (\<lambda>r. cell_at r i) (rows df)))"

text \<open>
  The filter of line 141: the whole table for \<^verbatim>\<open>None\<close> and \<^verbatim>\<open>"All"\<close>, otherwise
  the rows whose \<^verbatim>\<open>MineralName\<close> is the selected string.
\<close>

definition select_mineral :: "frame \<Rightarrow> string option \<Rightarrow> error + frame" where
  "select_mineral df_sites sel =
     (if sel = None \<or> sel = Some ''All'' then Inr df_sites
      else (case index_of ''MineralName'' (columns df_sites) of
              None \<Rightarrow> Inl KeyError
            | Some i \<Rightarrow>
                Inr (df_sites\<lparr>rows := filter (\<lambda>r. Some (cell_at r i) = map_option Str sel)
                                          (rows df_sites)\<rparr>)))"

text \<open>
  \<^verbatim>\<open>unique()\<close> keeps the first occurrence of every value, in order of appearance.
\<close>

fun uniq :: "'a list \<Rightarrow> 'a list" where
  "uniq [] = []"
| "uniq (x # xs) = x # uniq (filter (\<lambda>y. y \<noteq> x) xs)"

definition mineral_names :: "frame \<Rightarrow> error + cell list" where
  "mineral_names df =
     (case column df ''MineralName'' of
        Inl e \<Rightarrow> Inl e
      | Inr names \<Rightarrow> Inr (uniq (filter (\<lambda>c. c \<noteq> NaN) names)))"

text \<open>
  The dictionary \<^verbatim>\<open>cmap\<close>, as the list of its items; \<open>palette\<close> is
  \<^verbatim>\<open>px.colors.qualitative.Plotly\<close>.
\<close>

definition color_map :: "string list \<Rightarrow> cell list \<Rightarrow> (cell \<times> string) list" where
  "color_map palette minerals =
     map (\<lambda>i. (minerals ! i, palette ! (i mod length palette))) [0..<length minerals]"

text \<open>
  What \<^verbatim>\<open>build_map\<close> hands to folium: the centre of the map and, per marker, the
  location, the colour and the values shown in the popup. folium itself is not
  modelled.
\<close>

record marker =
  location :: "pyfloat \<times> pyfloat"
  color :: string
  site_name :: cell
  mineral :: cell
  country :: cell
  production :: int

record map_model =
  center :: "pyfloat \<times> pyfloat"
  zoom_start :: nat
  markers :: "marker list"

definition row_get_default :: "frame \<Rightarrow> cell list \<Rightarrow> string \<Rightarrow> cell \<Rightarrow> cell" where
  "row_get_default df r c dflt = (case row_get df r c of None \<Rightarrow> dflt | Some v \<Rightarrow> v)"

text \<open>
  The \<^verbatim>\<open>try\<close> block of the loop: both coordinates converted by \<^verbatim>\<open>float\<close>, none
  when a column is missing or a conversion raises (the row is then skipped).
\<close>

definition coordinates :: "float_parser \<Rightarrow> frame \<Rightarrow> cell list \<Rightarrow> (pyfloat \<times> pyfloat) option" where
  "coordinates parse df r =
     (case row_get df r ''Latitude'' of
        None \<Rightarrow> None
      | Some a \<Rightarrow>
          (case py_float parse a of
             Inl e \<Rightarrow> None
           | Inr la \<Rightarrow>
               (case row_get df r ''Longitude'' of
                  None \<Rightarrow> None
                | Some b \<Rightarrow>
                    (case py_float parse b of
                       Inl e \<Rightarrow> None
                     | Inr lo \<Rightarrow> Some (la, lo)))))"

definition marker_color :: "(cell \<times> string) list \<Rightarrow> cell option \<Rightarrow> string" where
  "marker_color cmap key =
     (case key of
        None \<Rightarrow> ''#ffffff''
      | Some k \<Rightarrow> (case map_of cmap k of None \<Rightarrow> ''#ffffff'' | Some c \<Rightarrow> c))"

text \<open>
  The loop over \<^verbatim>\<open>df.iterrows()\<close>. The conversion \<^verbatim>\<open>int(...)\<close> of the popup stands
  outside the \<^verbatim>\<open>try\<close> block, so its error leaves the function.
\<close>

fun add_markers ::
  "float_parser \<Rightarrow> int_parser \<Rightarrow> frame \<Rightarrow> (cell \<times> string) list \<Rightarrow> cell list list
     \<Rightarrow> error + marker list" where
  "add_markers pflt pint df cmap [] = Inr []"
| "add_markers pflt pint df cmap (r # rs) =
     (case coordinates pflt df r of
        None \<Rightarrow> add_markers pflt pint df cmap rs
      | Some loc \<Rightarrow>
          (case py_int pint (row_get_default df r ''Production_tonnes'' (Num 0)) of
             Inl e \<Rightarrow> Inl e
           | Inr t \<Rightarrow>
               (case add_markers pflt pint df cmap rs of
                  Inl e \<Rightarrow> Inl e
                | Inr ms \<Rightarrow>
                    Inr (\<lparr>location = loc,
                          color = marker_color cmap (row_get df r ''MineralName''),
                          site_name = row_get_default df r ''SiteName'' (Str []),
                          mineral = row_get_default df r ''MineralName'' (Str []),
                          country = row_get_default df r ''CountryName'' (Str []),
                          production = t\<rparr> # ms))))"

text \<open>
  Lines 142 and 143: the mean of the column coerced to numbers when the table has the
  column, else 0.
\<close>

definition column_mean :: "float_parser \<Rightarrow> frame \<Rightarrow> string \<Rightarrow> pyfloat" where
  "column_mean pnum df c =
     (case column df c of
        Inl e \<Rightarrow> Float 0
      | Inr cells \<Rightarrow> mean (map (to_numeric pnum) cells))"

text \<open>
  \<^verbatim>\<open>build_map\<close>. The dictionary comprehension divides by the palette's length, so
  an empty palette with a mineral to colour raises.
\<close>

definition build_map ::
  "float_parser \<Rightarrow> float_parser \<Rightarrow> int_parser \<Rightarrow> string list \<Rightarrow> frame \<Rightarrow> string option
     \<Rightarrow> error + map_model option" where
  "build_map pflt pnum pint palette df_sites sel =
     (if empty_df df_sites then Inr None
      else (case select_mineral df_sites sel of
              Inl e \<Rightarrow> Inl e
            | Inr df \<Rightarrow>
                let lat = column_mean pnum df ''Latitude'';
                    lon = column_mean pnum df ''Longitude''
                in (case mineral_names df of
                      Inl e \<Rightarrow> Inl e
                    | Inr minerals \<Rightarrow>
                        if minerals \<noteq> [] \<and> palette = [] then Inl ZeroDivisionError
                        else (case add_markers pflt pint df (color_map palette minerals) (rows df) of
                                Inl e \<Rightarrow> Inl e
                              | Inr ms \<Rightarrow>
                                  Inr (Some \<lparr>center = (or_0 lat, or_0 lon),
                                             zoom_start = 3,
                                             markers = ms\<rparr>)))))"

text \<open>The ten colours of plotly's qualitative palette "Plotly".\<close>

definition plotly :: "string list" where
  "plotly = [''#636EFA'', ''#EF553B'', ''#00CC96'', ''#AB63FA'', ''#FFA15A'',
             ''#19D3F3'', ''#FF6692'', ''#B6E880'', ''#FF97FF'', ''#FECB52'']"

text \<open>The columns of the sites table joined with countries and minerals.\<close>

definition joined_sites_cols :: "string list" where
  "joined_sites_cols = sites_cols @ tl countries_cols @ tl minerals_cols"

section \<open>Example data\<close>



definition reject_all :: "string \<Rightarrow> 'a option" where
  "reject_all s = None"

definition pit_sites :: frame where
  "pit_sites = \<lparr>columns = joined_sites_cols,
                 rows = [[Num 1, Str ''Pit'', Num 1, Num 1, Num (-10), Num 20, Num 500,
                          Str ''Zed'', Num 10, Num 2, Str ''P1'', Str ''Cobalt'', Str ''d'']]\<rparr>"

definition three_sites :: frame where
  "three_sites = \<lparr>columns = joined_sites_cols,
     rows = [[Num 1, Str ''Pit'', Num 1, Num 1, Num (-10), Num 20, Num 500,
              Str ''Zed'', Num 10, Num 2, Str ''P1'', Str ''Cobalt'', Str ''d''],
             [Num 2, Str ''Reef'', Num 1, Num 2, Num (-20), Num 30, Num 70,
              Str ''Zed'', Num 10, Num 2, Str ''P1'', Str ''Gold'', Str ''g''],
             [Num 3, Str ''Shaft'', Num 1, Num 1, Num (-30), Num 40, Num 9,
              Str ''Zed'', Num 10, Num 2, Str ''P1'', Str ''Cobalt'', Str ''d'']]\<rparr>"

section \<open>Properties of the user store\<close>

lemma authenticate_loop_find:
  "authenticate_loop chk login_id password us = find (accepts chk login_id password) us"
  by (induction us) (simp_all add: accepts_def)

lemma find_Some_split:
  "find P xs = Some x \<longleftrightarrow>
     (\<exists>pre post. xs = pre @ x # post \<and> P x \<and> (\<forall>v\<in>set pre. \<not> P v))"
proof (induction xs)
  case Nil
  show ?case by simp
next
  case (Cons a xs)
  show ?case
  proof (cases "P a")
    case True
    have "(\<exists>pre post. a # xs = pre @ x # post \<and> P x \<and> (\<forall>v\<in>set pre. \<not> P v)) \<longleftrightarrow> a = x"
    proof
      assume "\<exists>pre post. a # xs = pre @ x # post \<and> P x \<and> (\<forall>v\<in>set pre. \<not> P v)"
      then obtain pre post where
        e: "a # xs = pre @ x # post" and n: "\<forall>v\<in>set pre. \<not> P v" by blast
      show "a = x"
      proof (cases pre)
        case Nil
        with e show ?thesis by simp
      next
        case (Cons b bs)
        with e have "b = a" by simp
        with Cons n True show ?thesis by simp
      qed
    next
      assume "a = x"
      with True have "a # xs = [] @ x # xs \<and> P x \<and> (\<forall>v\<in>set []. \<not> P v)" by simp
      then show "\<exists>pre post. a # xs = pre @ x # post \<and> P x \<and> (\<forall>v\<in>set pre. \<not> P v)"
        by blast
    qed
    with True show ?thesis by auto
  next
    case False
    have "(\<exists>pre post. a # xs = pre @ x # post \<and> P x \<and> (\<forall>v\<in>set pre. \<not> P v)) \<longleftrightarrow>
          (\<exists>pre post. xs = pre @ x # post \<and> P x \<and> (\<forall>v\<in>set pre. \<not> P v))"
    proof
      assume "\<exists>pre post. a # xs = pre @ x # post \<and> P x \<and> (\<forall>v\<in>set pre. \<not> P v)"
      then obtain pre post where
        e: "a # xs = pre @ x # post" and p: "P x" and n: "\<forall>v\<in>set pre. \<not> P v" by blast
      show "\<exists>pre post. xs = pre @ x # post \<and> P x \<and> (\<forall>v\<in>set pre. \<not> P v)"
      proof (cases pre)
        case Nil
        with e p False show ?thesis by simp
      next
        case (Cons b bs)
        with e n p have "xs = bs @ x # post \<and> P x \<and> (\<forall>v\<in>set bs. \<not> P v)" by simp
        then show ?thesis by blast
      qed
    next
      assume "\<exists>pre post. xs = pre @ x # post \<and> P x \<and> (\<forall>v\<in>set pre. \<not> P v)"
      then obtain pre post where
        "xs = pre @ x # post" and "P x" and "\<forall>v\<in>set pre. \<not> P v" by blast
      with False have
        "a # xs = (a # pre) @ x # post \<and> P x \<and> (\<forall>v\<in>set (a # pre). \<not> P v)" by simp
      then show "\<exists>pre post. a # xs = pre @ x # post \<and> P x \<and> (\<forall>v\<in>set pre. \<not> P v)"
        by blast
    qed
    with False Cons.IH show ?thesis by simp
  qed
qed

lemma load_users_Inr:
  "load_users gen now file = Inr (db, file') \<Longrightarrow> file' = Stored db \<and> file \<noteq> Malformed"
  by (auto simp: load_users_def init_users_def split: users_file.splits)

lemma load_users_Stored [simp]:
  "load_users gen now (Stored db) = Inr (db, Stored db)"
  by (simp add: load_users_def init_users_def)

lemma save_users_Stored [simp]: "save_users data file = Stored data"
  by (simp add: save_users_def save_users_ops_def)

lemma find_append_last:
  "P x \<Longrightarrow> \<exists>u. find P (xs @ [x]) = Some u \<and> P u \<and> ((\<forall>v\<in>set xs. \<not> P v) \<longrightarrow> u = x)"
  by (induction xs) auto

text \<open>
  Claim C9. For every store and every identifier and password, \<^verbatim>\<open>authenticate\<close>
  returns the first user in store order whose username or email is the identifier
  and whose hash verifies the password: the users before it are exactly users that do
  not accept the login, among them those that carry the identifier with another
  password, which the loop skips. It returns none exactly when no user accepts.
\<close>

theorem authenticate_first_accepting_user:
  assumes "load_users gen now file = Inr (db, file')"
  shows "\<exists>r. authenticate gen now chk login_id password file = Inr (r, file')
           \<and> (\<forall>u. r = Some u \<longleftrightarrow>
                  (\<exists>pre post. users db = pre @ u # post
                     \<and> accepts chk login_id password u
                     \<and> (\<forall>v\<in>set pre. \<not> accepts chk login_id password v)))
           \<and> (r = None \<longleftrightarrow> (\<forall>v\<in>set (users db). \<not> accepts chk login_id password v))"
proof -
  have a: "authenticate gen now chk login_id password file
             = Inr (find (accepts chk login_id password) (users db), file')"
    using assms by (simp add: authenticate_def authenticate_loop_find)
  have n: "find (accepts chk login_id password) (users db) = None \<longleftrightarrow>
             (\<forall>v\<in>set (users db). \<not> accepts chk login_id password v)"
    by (auto simp: find_None_iff)
  from a n show ?thesis by (simp add: find_Some_split)
qed

theorem authenticate_first_accepting_user_witness:
  "authenticate plain_hash ''t'' plain_check ''kim'' ''two'' (Stored \<lparr>users =
       [\<lparr>user_id = 2, username = ''kim'', password_hash = ''plain$one'',
          role = ''Investor'', email = ''kim@minerals.local'', created_at = ''t1''\<rparr>,
        \<lparr>user_id = 3, username = ''lee'', password_hash = ''plain$two'',
          role = ''Researcher'', email = ''kim'', created_at = ''t2''\<rparr>], next_id = 4\<rparr>)
     = Inr (Some \<lparr>user_id = 3, username = ''lee'', password_hash = ''plain$two'',
          role = ''Researcher'', email = ''kim'', created_at = ''t2''\<rparr>,
        Stored \<lparr>users =
       [\<lparr>user_id = 2, username = ''kim'', password_hash = ''plain$one'',
          role = ''Investor'', email = ''kim@minerals.local'', created_at = ''t1''\<rparr>,
        \<lparr>user_id = 3, username = ''lee'', password_hash = ''plain$two'',
          role = ''Researcher'', email = ''kim'', created_at = ''t2''\<rparr>], next_id = 4\<rparr>)"
proof -
  let ?k = "\<lparr>user_id = 2, username = ''kim'', password_hash = ''plain$one'',
          role = ''Investor'', email = ''kim@minerals.local'', created_at = ''t1''\<rparr>"
  let ?l = "\<lparr>user_id = 3, username = ''lee'', password_hash = ''plain$two'',
          role = ''Researcher'', email = ''kim'', created_at = ''t2''\<rparr>"
  let ?db = "\<lparr>users = [?k, ?l], next_id = 4\<rparr>"
  have l: "load_users plain_hash ''t'' (Stored ?db) = Inr (?db, Stored ?db)" by simp
  from authenticate_first_accepting_user [OF l, of plain_check "''kim''" "''two''"]
  obtain r where
    a: "authenticate plain_hash ''t'' plain_check ''kim'' ''two'' (Stored ?db) = Inr (r, Stored ?db)"
    and s: "\<forall>u. r = Some u \<longleftrightarrow>
              (\<exists>pre post. users ?db = pre @ u # post
                 \<and> accepts plain_check ''kim'' ''two'' u
                 \<and> (\<forall>v\<in>set pre. \<not> accepts plain_check ''kim'' ''two'' v))"
    by blast
  have "users ?db = [?k] @ ?l # [] \<and> accepts plain_check ''kim'' ''two'' ?l
          \<and> (\<forall>v\<in>set [?k]. \<not> accepts plain_check ''kim'' ''two'' v)"
    by (simp add: plain_check_def accepts_def)
  then have "r = Some ?l" using s by blast
  with a show ?thesis by simp
qed

text \<open>
  Claim C1, as amended. On a store that loads, \<^verbatim>\<open>create_user\<close> followed by
  \<^verbatim>\<open>authenticate\<close> with the same name and password succeeds and returns a user
  that carries the name as its username or as its email and whose hash verifies the
  password; it is the created user, with that username and the id the counter held,
  when no user already in the store accepts the pair. On every store that loads,
  \<^verbatim>\<open>authenticate\<close> returns none exactly when no user whose username or email is the
  identifier verifies the password.
\<close>

theorem create_user_then_authenticate:
  assumes "load_users gen now file = Inr (db, file0)"
      and "chk (gen password) password"
  shows "\<exists>file' u. create_user gen now uname password rl mail file = Inr file'
           \<and> authenticate gen' now' chk uname password file' = Inr (Some u, file')
           \<and> accepts chk uname password u
           \<and> ((\<forall>v\<in>set (users db). \<not> accepts chk uname password v)
                \<longrightarrow> username u = uname \<and> user_id u = next_id db)
           \<and> (\<forall>login_id pw.
                  authenticate gen now chk login_id pw file = Inr (None, file0)
                    \<longleftrightarrow> (\<forall>v\<in>set (users db). \<not> accepts chk login_id pw v))"
proof -
  let ?new = "\<lparr>user_id = next_id db, username = uname, password_hash = gen password,
               role = rl,
               email = (if mail = [] then uname @ ''@minerals.local'' else mail),
               created_at = now\<rparr>"
  let ?db' = "\<lparr>users = users db @ [?new], next_id = next_id db + 1\<rparr>"
  have c: "create_user gen now uname password rl mail file = Inr (Stored ?db')"
    using assms(1) by (simp add: create_user_def Let_def)
  have "accepts chk uname password ?new"
    using assms(2) by (simp add: accepts_def)
  from find_append_last [of "accepts chk uname password", OF this, of "users db"]
  obtain u where
    f: "find (accepts chk uname password) (users db @ [?new]) = Some u"
    and p: "accepts chk uname password u"
    and l: "(\<forall>v\<in>set (users db). \<not> accepts chk uname password v) \<longrightarrow> u = ?new"
    by blast
  have a: "authenticate gen' now' chk uname password (Stored ?db') = Inr (Some u, Stored ?db')"
    using f by (simp add: authenticate_def authenticate_loop_find)
  from l have "(\<forall>v\<in>set (users db). \<not> accepts chk uname password v)
                \<longrightarrow> username u = uname \<and> user_id u = next_id db"
    by auto
  moreover have "\<forall>login_id pw.
      authenticate gen now chk login_id pw file = Inr (None, file0)
        \<longleftrightarrow> (\<forall>v\<in>set (users db). \<not> accepts chk login_id pw v)"
    using assms(1) by (auto simp: authenticate_def authenticate_loop_find find_None_iff)
  ultimately show ?thesis using c a p by blast
qed

theorem create_user_then_authenticate_witness:
  "(\<exists>file' u. create_user plain_hash ''t1'' ''zola'' ''s3cret'' ''Researcher'' [] Absent = Inr file'
      \<and> authenticate plain_hash ''t2'' plain_check ''zola'' ''s3cret'' file' = Inr (Some u, file')
      \<and> username u = ''zola'' \<and> user_id u = 2)
   \<and> authenticate plain_hash ''t1'' plain_check ''admin'' ''guess'' Absent
       = Inr (None, Stored (seed_db plain_hash ''t1''))"
proof -
  have l: "load_users plain_hash ''t1'' Absent
             = Inr (seed_db plain_hash ''t1'', Stored (seed_db plain_hash ''t1''))"
    by (simp add: load_users_def init_users_def)
  have h: "plain_check (plain_hash ''s3cret'') ''s3cret''"
    by (simp add: plain_check_def plain_hash_def)
  have n: "\<forall>v\<in>set (users (seed_db plain_hash ''t1'')). \<not> accepts plain_check ''zola'' ''s3cret'' v"
    by (simp add: seed_db_def accepts_def)
  have g: "\<forall>v\<in>set (users (seed_db plain_hash ''t1'')). \<not> accepts plain_check ''admin'' ''guess'' v"
    by (simp add: seed_db_def accepts_def plain_check_def plain_hash_def)
  have i: "next_id (seed_db plain_hash ''t1'') = 2" by (simp add: seed_db_def)
  from create_user_then_authenticate
         [where gen = plain_hash and chk = plain_check and password = "''s3cret''"
            and uname = "''zola''" and rl = "''Researcher''" and mail = "[]"
            and gen' = plain_hash and now' = "''t2''", OF l h] n g i
  show ?thesis by auto
qed

text \<open>
  The claim as first stated fails where an earlier user holds the new username as its
  email and has the same password: the login returns that earlier user.
\<close>

theorem authenticate_username_counterexample:
  "create_user plain_hash ''t2'' ''alice'' ''pw'' ''Investor'' []
     (Stored \<lparr>users =
        [\<lparr>user_id = 1, username = ''admin'', password_hash = ''plain$password'',
          role = ''Administrator'', email = ''admin@minerals.local'', created_at = ''t0''\<rparr>,
         \<lparr>user_id = 2, username = ''bob'', password_hash = ''plain$pw'',
          role = ''Investor'', email = ''alice'', created_at = ''t1''\<rparr>], next_id = 3\<rparr>)
   = Inr (Stored \<lparr>users =
        [\<lparr>user_id = 1, username = ''admin'', password_hash = ''plain$password'',
          role = ''Administrator'', email = ''admin@minerals.local'', created_at = ''t0''\<rparr>,
         \<lparr>user_id = 2, username = ''bob'', password_hash = ''plain$pw'',
          role = ''Investor'', email = ''alice'', created_at = ''t1''\<rparr>,
         \<lparr>user_id = 3, username = ''alice'', password_hash = ''plain$pw'',
          role = ''Investor'', email = ''alice@minerals.local'', created_at = ''t2''\<rparr>],
        next_id = 4\<rparr>)
   \<and> authenticate plain_hash ''t3'' plain_check ''alice'' ''pw''
       (Stored \<lparr>users =
        [\<lparr>user_id = 1, username = ''admin'', password_hash = ''plain$password'',
          role = ''Administrator'', email = ''admin@minerals.local'', created_at = ''t0''\<rparr>,
         \<lparr>user_id = 2, username = ''bob'', password_hash = ''plain$pw'',
          role = ''Investor'', email = ''alice'', created_at = ''t1''\<rparr>,
         \<lparr>user_id = 3, username = ''alice'', password_hash = ''plain$pw'',
          role = ''Investor'', email = ''alice@minerals.local'', created_at = ''t2''\<rparr>],
        next_id = 4\<rparr>)
   = Inr (Some \<lparr>user_id = 2, username = ''bob'', password_hash = ''plain$pw'',
          role = ''Investor'', email = ''alice'', created_at = ''t1''\<rparr>,
        Stored \<lparr>users =
        [\<lparr>user_id = 1, username = ''admin'', password_hash = ''plain$password'',
          role = ''Administrator'', email = ''admin@minerals.local'', created_at = ''t0''\<rparr>,
         \<lparr>user_id = 2, username = ''bob'', password_hash = ''plain$pw'',
          role = ''Investor'', email = ''alice'', created_at = ''t1''\<rparr>,
         \<lparr>user_id = 3, username = ''alice'', password_hash = ''plain$pw'',
          role = ''Investor'', email = ''alice@minerals.local'', created_at = ''t2''\<rparr>],
        next_id = 4\<rparr>)"
  by (simp add: create_user_def authenticate_def plain_hash_def plain_check_def)

subsection \<open>Registration\<close>

text \<open>
  Claim C2, as amended. A registration as Administrator with a code other than the
  configured secret always fails and leaves the store file as it was, whatever the
  other fields hold and whether or not the username is taken. The checks run in the
  order of the \<^verbatim>\<open>if\<close>/\<^verbatim>\<open>elif\<close> chain, so the error is the password mismatch when the
  two passwords differ, the missing fields when they agree and the username or the
  password is empty, and the invalid administrator code exactly when the passwords
  agree and both fields are filled.
\<close>

theorem admin_wrong_code_fails:
  assumes "rl = ''Administrator''" and "code_input \<noteq> admin_secret"
  shows "(\<exists>r. register_click admin_secret gen now u mail rl pw conf code_input file
                  = Inr (r, file)
              \<and> r = (if pw \<noteq> conf then PasswordMismatch
                      else if u = [] \<or> pw = [] then MissingFields
                      else InvalidAdminCode))
         \<and> (register_click admin_secret gen now u mail rl pw conf code_input file
               = Inr (InvalidAdminCode, file)
             \<longleftrightarrow> pw = conf \<and> u \<noteq> [] \<and> pw \<noteq> [])"
  using assms by (simp add: register_click_def)

theorem admin_wrong_code_fails_witness:
  "register_click ''letmein'' plain_hash ''t'' ''admin'' ''x@y.z'' ''Administrator''
       ''pw'' ''pw'' ''guess'' (Stored (seed_db plain_hash ''t0''))
     = Inr (InvalidAdminCode, Stored (seed_db plain_hash ''t0''))
   \<and> register_click ''letmein'' plain_hash ''t'' [] ''x@y.z'' ''Administrator''
       ''pw'' ''pw'' ''guess'' Absent \<noteq> Inr (InvalidAdminCode, Absent)"
proof -
  have r: "''Administrator'' = ''Administrator''" by simp
  have c: "''guess'' \<noteq> ''letmein''" by simp
  from admin_wrong_code_fails [OF r c, of plain_hash "''t''" "''admin''" "''x@y.z''" "''pw''" "''pw''"
         "Stored (seed_db plain_hash ''t0'')"]
       admin_wrong_code_fails [OF r c, of plain_hash "''t''" "[]" "''x@y.z''" "''pw''" "''pw''" Absent]
  show ?thesis by simp
qed

text \<open>
  With a wrong code and two different passwords the error reported is the password
  mismatch, not the invalid code.
\<close>

theorem admin_wrong_code_counterexample:
  "register_click ''letmein'' plain_hash ''t'' ''newadmin'' [] ''Administrator''
       ''pw1'' ''pw2'' ''guess'' Absent = Inr (PasswordMismatch, Absent)"
  by (simp add: register_click_def)

subsection \<open>Saving the store\<close>

text \<open>
  Claim C7, as amended. A \<^verbatim>\<open>save_users\<close> that runs to its end replaces whatever
  the file held by the given store. It writes in place: the file is opened for writing
  first, which empties it, and the store is dumped afterwards; a save interrupted
  between the two leaves content that does not load, whatever the file held before.
  No temporary file is written and nothing is renamed.
\<close>

theorem save_users_replaces_not_atomic:
  "save_users data file = Stored data
   \<and> save_users data file = interrupted_after (length (save_users_ops data)) (save_users_ops data) file
   \<and> interrupted_after 0 (save_users_ops data) file = file
   \<and> interrupted_after 1 (save_users_ops data) file = Malformed"
  by (simp add: save_users_def save_users_ops_def interrupted_after_def)

text \<open>
  An interrupted save of a new store over the seeded one leaves neither of them.
\<close>

theorem save_users_atomic_counterexample:
  "interrupted_after 1
     (save_users_ops \<lparr>users = [], next_id = 3\<rparr>)
     (Stored \<lparr>users = [\<lparr>user_id = 1, username = ''admin'', password_hash = ''plain$password'',
          role = ''Administrator'', email = ''admin@minerals.local'', created_at = ''t0''\<rparr>], next_id = 2\<rparr>)
   = Malformed"
  by (simp add: save_users_ops_def interrupted_after_def)

subsection \<open>Deleting a user\<close>

text \<open>
  Claim C10. When the store loads and has a user, the delete button stores the users
  whose id differs from the requested one, in their order, and leaves the counter
  \<^verbatim>\<open>next_id\<close> as it was; every user with another id is kept unchanged, nothing is
  added, and the store is unchanged when no user has the id. The number input only
  yields ids of at least 2, and for those every user with id 1, the seeded
  administrator among them, stays in the store.
\<close>

theorem delete_user_frame:
  assumes "load_users gen now file = Inr (db, file0)" and "users db \<noteq> []"
  shows "\<exists>db'. delete_user_click gen now uid file = Inr (Stored db')
           \<and> users db' = filter (\<lambda>u. user_id u \<noteq> uid) (users db)
           \<and> next_id db' = next_id db
           \<and> (\<forall>u\<in>set (users db). user_id u \<noteq> uid \<longrightarrow> u \<in> set (users db'))
           \<and> (\<forall>u\<in>set (users db'). u \<in> set (users db) \<and> user_id u \<noteq> uid)
           \<and> ((\<forall>u\<in>set (users db). user_id u \<noteq> uid) \<longrightarrow> db' = db)
           \<and> (2 \<le> uid \<longrightarrow> (\<forall>u\<in>set (users db). user_id u = 1 \<longrightarrow> u \<in> set (users db')))"
proof -
  let ?db' = "db\<lparr>users := filter (\<lambda>u. user_id u \<noteq> uid) (users db)\<rparr>"
  have d: "delete_user_click gen now uid file = Inr (Stored ?db')"
    using assms by (simp add: delete_user_click_def)
  have n: "(\<forall>u\<in>set (users db). user_id u \<noteq> uid) \<longrightarrow> ?db' = db"
    by (simp add: filter_id_conv)
  have "users ?db' = filter (\<lambda>u. user_id u \<noteq> uid) (users db) \<and> next_id ?db' = next_id db
      \<and> (\<forall>u\<in>set (users db). user_id u \<noteq> uid \<longrightarrow> u \<in> set (users ?db'))
      \<and> (\<forall>u\<in>set (users ?db'). u \<in> set (users db) \<and> user_id u \<noteq> uid)
      \<and> (2 \<le> uid \<longrightarrow> (\<forall>u\<in>set (users db). user_id u = 1 \<longrightarrow> u \<in> set (users ?db')))"
    by auto
  with d n show ?thesis by blast
qed

theorem delete_user_frame_witness:
  "delete_user_click plain_hash ''t'' 2
     (Stored \<lparr>users =
        [\<lparr>user_id = 1, username = ''admin'', password_hash = ''plain$password'',
          role = ''Administrator'', email = ''admin@minerals.local'', created_at = ''t0''\<rparr>,
         \<lparr>user_id = 2, username = ''bob'', password_hash = ''plain$pw'',
          role = ''Investor'', email = ''bob@minerals.local'', created_at = ''t1''\<rparr>],
        next_id = 3\<rparr>)
   = Inr (Stored \<lparr>users =
        [\<lparr>user_id = 1, username = ''admin'', password_hash = ''plain$password'',
          role = ''Administrator'', email = ''admin@minerals.local'', created_at = ''t0''\<rparr>],
        next_id = 3\<rparr>)"
proof -
  let ?a = "\<lparr>user_id = 1, username = ''admin'', password_hash = ''plain$password'',
          role = ''Administrator'', email = ''admin@minerals.local'', created_at = ''t0''\<rparr>"
  let ?b = "\<lparr>user_id = 2, username = ''bob'', password_hash = ''plain$pw'',
          role = ''Investor'', email = ''bob@minerals.local'', created_at = ''t1''\<rparr>"
  let ?db = "\<lparr>users = [?a, ?b], next_id = 3\<rparr>"
  have l: "load_users plain_hash ''t'' (Stored ?db) = Inr (?db, Stored ?db)" by simp
  have n: "users ?db \<noteq> []" by simp
  from delete_user_frame [OF l n, of 2]
  obtain db' where d: "delete_user_click plain_hash ''t'' 2 (Stored ?db) = Inr (Stored db')"
    and u: "users db' = filter (\<lambda>u. user_id u \<noteq> 2) (users ?db)"
    and i: "next_id db' = next_id ?db"
    and k: "(2::int) \<le> 2 \<longrightarrow> (\<forall>u\<in>set (users ?db). user_id u = 1 \<longrightarrow> u \<in> set (users db'))"
    by blast
  from u i have "db' = \<lparr>users = [?a], next_id = 3\<rparr>" by (cases db') simp
  with d show ?thesis by simp
qed

section \<open>Properties of the tables\<close>

lemmas cols_defs = joined_sites_cols_def sites_cols_def countries_cols_def minerals_cols_def
  production_cols_def










subsection \<open>Degraded loading\<close>

text \<open>
  Claim C3, at the input that separates the two paths of \<^verbatim>\<open>safe_read\<close>. With all
  four files present and unreadable \<^verbatim>\<open>load_data\<close> raises nothing and returns four
  empty tables that have no columns at all; with all four files absent it returns the
  four empty tables with their column lists. So an unreadable file does not yield the
  expected columns.
\<close>

theorem safe_read_unreadable_drops_columns:
  "load_data \<lparr>countries_csv = Unreadable, minerals_csv = Unreadable,
               production_stats_csv = Unreadable, sites_csv = Unreadable\<rparr>
     = (DataFrame [], DataFrame [], DataFrame [], DataFrame [])
   \<and> load_data \<lparr>countries_csv = Missing, minerals_csv = Missing,
                 production_stats_csv = Missing, sites_csv = Missing\<rparr>
     = (DataFrame countries_cols, DataFrame minerals_cols, DataFrame production_cols,
        DataFrame sites_cols)
   \<and> columns (safe_read Unreadable (Some countries_cols)) \<noteq> countries_cols"
  by (simp add: load_data_def Let_def safe_read_def empty_df_def DataFrame_def cols_defs)

subsection \<open>The joins\<close>






section \<open>Properties of the map\<close>

lemma index_of_Some: "index_of x xs = Some i \<Longrightarrow> i < length xs \<and> xs ! i = x"
proof (induction xs arbitrary: i)
  case Nil
  then show ?case by simp
next
  case (Cons y ys)
  then show ?case by (cases "x = y") auto
qed

lemma index_of_mem: "x \<in> set xs \<Longrightarrow> \<exists>i. index_of x xs = Some i"
  by (induction xs) auto

lemma set_uniq: "set (uniq xs) = set xs"
  by (induction xs rule: uniq.induct) auto

lemma distinct_uniq: "distinct (uniq xs)"
  by (induction xs rule: uniq.induct) (auto simp: set_uniq)

lemma color_map_lookup:
  assumes "distinct ms" and "i < length ms"
  shows "map_of (color_map palette ms) (ms ! i) = Some (palette ! (i mod length palette))"
proof -
  have "map fst (color_map palette ms) = ms"
    by (simp add: color_map_def comp_def map_nth)
  with assms(1) have d: "distinct (map fst (color_map palette ms))" by simp
  have "(ms ! i, palette ! (i mod length palette)) \<in> set (color_map palette ms)"
    using assms(2) by (auto simp: color_map_def)
  with d show ?thesis by (simp add: map_of_eq_Some_iff)
qed

lemma add_markers_rows:
  "add_markers pflt pint df cmap rs = Inr ms \<Longrightarrow>
     \<forall>mk\<in>set ms. \<exists>r\<in>set rs.
        color mk = marker_color cmap (row_get df r ''MineralName'')
      \<and> mineral mk = row_get_default df r ''MineralName'' (Str [])"
proof (induction rs arbitrary: ms)
  case Nil
  then show ?case by simp
next
  case (Cons r rs)
  then show ?case
    by (auto split: option.splits sum.splits)
qed

lemma build_map_Some:
  assumes b: "build_map pflt pnum pint palette df_sites sel = Inr (Some mm)"
  shows "\<exists>df minerals. select_mineral df_sites sel = Inr df
            \<and> mineral_names df = Inr minerals
            \<and> add_markers pflt pint df (color_map palette minerals) (rows df) = Inr (markers mm)"
proof (cases "select_mineral df_sites sel")
  case (Inl e)
  with b show ?thesis by (simp add: build_map_def split: if_splits)
next
  case s: (Inr df)
  show ?thesis
  proof (cases "mineral_names df")
    case (Inl e)
    with b s show ?thesis by (simp add: build_map_def Let_def split: if_splits)
  next
    case m: (Inr minerals)
    show ?thesis
    proof (cases "add_markers pflt pint df (color_map palette minerals) (rows df)")
      case (Inl e)
      with b s m show ?thesis by (simp add: build_map_def Let_def split: if_splits)
    next
      case (Inr ms)
      with b s m have "markers mm = ms"
        by (auto simp add: build_map_def Let_def split: if_splits)
      with s m Inr show ?thesis by simp
    qed
  qed
qed

lemma one_row_map:
  assumes pal: "palette \<noteq> []"
      and rw: "rows df_sites = [r]"
      and sl: "sel = None \<or> sel = Some ''All''"
      and co: "coordinates pflt df_sites r = Some loc"
      and pr: "py_int pint (row_get_default df_sites r ''Production_tonnes'' (Num 0)) = Inr t"
      and mi: "row_get df_sites r ''MineralName'' = Some n"
      and nn: "n \<noteq> NaN"
  shows "build_map pflt pnum pint palette df_sites sel
           = Inr (Some \<lparr>center = (or_0 (column_mean pnum df_sites ''Latitude''),
                                   or_0 (column_mean pnum df_sites ''Longitude'')),
                        zoom_start = 3,
                        markers = [\<lparr>location = loc, color = palette ! 0,
                                     site_name = row_get_default df_sites r ''SiteName'' (Str []),
                                     mineral = n,
                                     country = row_get_default df_sites r ''CountryName'' (Str []),
                                     production = t\<rparr>]\<rparr>)"
proof -
  from mi obtain k where k: "index_of ''MineralName'' (columns df_sites) = Some k"
    and nk: "cell_at r k = n"
    by (cases "index_of ''MineralName'' (columns df_sites)") (simp_all add: row_get_def)
  from k have "columns df_sites \<noteq> []" by (cases "columns df_sites") simp_all
  with rw have ne: "\<not> empty_df df_sites" by (simp add: empty_df_def)
  have s: "select_mineral df_sites sel = Inr df_sites"
    using sl by (simp add: select_mineral_def)
  have mn: "mineral_names df_sites = Inr [n]"
    by (simp add: mineral_names_def column_def k rw nk nn)
  have cm: "color_map palette [n] = [(n, palette ! 0)]"
    by (simp add: color_map_def)
  have am: "add_markers pflt pint df_sites [(n, palette ! 0)] [r]
              = Inr [\<lparr>location = loc, color = palette ! 0,
                       site_name = row_get_default df_sites r ''SiteName'' (Str []),
                       mineral = n,
                       country = row_get_default df_sites r ''CountryName'' (Str []),
                       production = t\<rparr>]"
  proof -
    have d: "row_get_default df_sites r ''MineralName'' (Str []) = n"
      by (simp add: row_get_default_def mi)
    show ?thesis by (simp add: co pr mi d marker_color_def)
  qed
  show ?thesis
    by (simp add: build_map_def Let_def ne s mn cm am rw pal del: add_markers.simps)
qed

lemma mineral_names_Inr:
  "mineral_names df = Inr minerals \<Longrightarrow>
     \<exists>k. index_of ''MineralName'' (columns df) = Some k
        \<and> column df ''MineralName'' = Inr (map (\<lambda>r. cell_at r k) (rows df))
        \<and> minerals = uniq (filter (\<lambda>c. c \<noteq> NaN) (map (\<lambda>r. cell_at r k) (rows df)))"
  by (cases "index_of ''MineralName'' (columns df)")
     (simp_all add: mineral_names_def column_def)

lemma set_uniq_dropna: "set (uniq (filter (\<lambda>c. c \<noteq> NaN) names)) = set names - {NaN}"
  by (auto simp: set_uniq)

lemma marker_colors:
  assumes b: "build_map pflt pnum pint palette df_sites sel = Inr (Some mm)"
  shows "\<exists>df names. select_mineral df_sites sel = Inr df
               \<and> column df ''MineralName'' = Inr names
               \<and> distinct (uniq (filter (\<lambda>c. c \<noteq> NaN) names))
               \<and> set (uniq (filter (\<lambda>c. c \<noteq> NaN) names)) = set names - {NaN}
               \<and> (\<forall>mk\<in>set (markers mm). mineral mk \<noteq> NaN \<longrightarrow>
                     (\<exists>i. index_of (mineral mk) (uniq (filter (\<lambda>c. c \<noteq> NaN) names)) = Some i
                        \<and> color mk = palette ! (i mod length palette)))"
proof -
  from build_map_Some [OF b] obtain df minerals where
    s: "select_mineral df_sites sel = Inr df"
    and mn: "mineral_names df = Inr minerals"
    and am: "add_markers pflt pint df (color_map palette minerals) (rows df) = Inr (markers mm)"
    by blast
  from mineral_names_Inr [OF mn] obtain k where
    k: "index_of ''MineralName'' (columns df) = Some k"
    and c: "column df ''MineralName'' = Inr (map (\<lambda>r. cell_at r k) (rows df))"
    and m: "minerals = uniq (filter (\<lambda>c. c \<noteq> NaN) (map (\<lambda>r. cell_at r k) (rows df)))"
    by blast
  let ?names = "map (\<lambda>r. cell_at r k) (rows df)"
  have d: "distinct minerals" unfolding m by (rule distinct_uniq)
  have st: "set minerals = set ?names - {NaN}" unfolding m by (rule set_uniq_dropna)
  have col: "\<forall>mk\<in>set (markers mm). mineral mk \<noteq> NaN \<longrightarrow>
          (\<exists>i. index_of (mineral mk) minerals = Some i
             \<and> color mk = palette ! (i mod length palette))"
  proof (intro ballI impI)
    fix mk
    assume mk: "mk \<in> set (markers mm)" and nn: "mineral mk \<noteq> NaN"
    from add_markers_rows [OF am] mk obtain r where
      r: "r \<in> set (rows df)"
      and cl: "color mk = marker_color (color_map palette minerals) (row_get df r ''MineralName'')"
      and mi: "mineral mk = row_get_default df r ''MineralName'' (Str [])"
      by blast
    have rg: "row_get df r ''MineralName'' = Some (cell_at r k)"
      by (simp add: row_get_def k)
    from mi rg have mi': "mineral mk = cell_at r k"
      by (simp add: row_get_default_def)
    from r have "cell_at r k \<in> set ?names" by simp
    with mi' nn have "mineral mk \<in> set ?names - {NaN}" by simp
    with st have "mineral mk \<in> set minerals" by simp
    from index_of_mem [OF this] obtain i where i: "index_of (mineral mk) minerals = Some i" ..
    from index_of_Some [OF i] have il: "i < length minerals" and ie: "minerals ! i = mineral mk"
      by simp_all
    from color_map_lookup [OF d il, of palette] ie
    have "map_of (color_map palette minerals) (mineral mk) = Some (palette ! (i mod length palette))"
      by simp
    with cl rg mi' have "color mk = palette ! (i mod length palette)"
      by (simp add: marker_color_def)
    with i show "\<exists>i. index_of (mineral mk) minerals = Some i
             \<and> color mk = palette ! (i mod length palette)" by blast
  qed
  have "select_mineral df_sites sel = Inr df
               \<and> column df ''MineralName'' = Inr ?names
               \<and> distinct (uniq (filter (\<lambda>c. c \<noteq> NaN) ?names))
               \<and> set (uniq (filter (\<lambda>c. c \<noteq> NaN) ?names)) = set ?names - {NaN}
               \<and> (\<forall>mk\<in>set (markers mm). mineral mk \<noteq> NaN \<longrightarrow>
                     (\<exists>i. index_of (mineral mk) (uniq (filter (\<lambda>c. c \<noteq> NaN) ?names)) = Some i
                        \<and> color mk = palette ! (i mod length palette)))"
    using s c d st col unfolding m by (intro conjI)
  then show ?thesis by (intro exI)
qed

text \<open>
  Claim C6, at a failing input. The sites table holds one Cobalt site and the filter
  selects Lithium, so no row is left. The mean of no latitude is \<^verbatim>\<open>nan\<close>, and
  \<^verbatim>\<open>lat or 0\<close> keeps it because \<^verbatim>\<open>nan\<close> is truthy: the centre is
  \<^verbatim>\<open>(nan, nan)\<close>, not \<^verbatim>\<open>(0, 0)\<close>.
\<close>

theorem build_map_center_nan:
  "build_map pflt pnum pint palette
     \<lparr>columns = joined_sites_cols,
       rows = [[Num 1, Str ''Pit'', Num 1, Num 1, Num (-10), Num 20, Num 500,
                Str ''Zed'', Num 10, Num 2, Str ''P1'', Str ''Cobalt'', Str ''d'']]\<rparr>
     (Some ''Lithium'')
   = Inr (Some \<lparr>center = (NotANumber, NotANumber), zoom_start = 3, markers = []\<rparr>)"
  by (simp add: build_map_def empty_df_def select_mineral_def column_mean_def column_def
        mean_def or_0_def truthy_def mineral_names_def color_map_def cell_at_def cols_defs)

text \<open>
  Claim C8. \<^verbatim>\<open>build_map\<close> is a function of the table, the filter and the
  palette, so two runs on the same data agree. With a non-empty palette, whenever it
  returns a map, every marker whose mineral name is present has the palette colour at
  the position (modulo the palette's length) of that name in the list of distinct
  names of the filtered rows, taken in order of first appearance. On a table with one
  row whose coordinates and production convert and whose mineral name is present, it
  returns a map with a single marker, coloured with the first palette entry.
\<close>

theorem build_map_colors:
  assumes pal: "palette \<noteq> []"
  shows "(\<forall>mm. build_map pflt pnum pint palette df_sites sel = Inr (Some mm) \<longrightarrow>
            (\<exists>df names. select_mineral df_sites sel = Inr df
               \<and> column df ''MineralName'' = Inr names
               \<and> distinct (uniq (filter (\<lambda>c. c \<noteq> NaN) names))
               \<and> set (uniq (filter (\<lambda>c. c \<noteq> NaN) names)) = set names - {NaN}
               \<and> (\<forall>mk\<in>set (markers mm). mineral mk \<noteq> NaN \<longrightarrow>
                     (\<exists>i. index_of (mineral mk) (uniq (filter (\<lambda>c. c \<noteq> NaN) names)) = Some i
                        \<and> color mk = palette ! (i mod length palette)))))
       \<and> (rows df_sites = [r] \<and> (sel = None \<or> sel = Some ''All'')
            \<and> coordinates pflt df_sites r = Some loc
            \<and> py_int pint (row_get_default df_sites r ''Production_tonnes'' (Num 0)) = Inr t
            \<and> row_get df_sites r ''MineralName'' = Some n \<and> n \<noteq> NaN
          \<longrightarrow> (\<exists>mk c. build_map pflt pnum pint palette df_sites sel
                         = Inr (Some \<lparr>center = c, zoom_start = 3, markers = [mk]\<rparr>)
                    \<and> color mk = palette ! 0 \<and> location mk = loc \<and> mineral mk = n))"
proof (intro conjI allI impI)
  fix mm
  assume "build_map pflt pnum pint palette df_sites sel = Inr (Some mm)"
  then show "\<exists>df names. select_mineral df_sites sel = Inr df
               \<and> column df ''MineralName'' = Inr names
               \<and> distinct (uniq (filter (\<lambda>c. c \<noteq> NaN) names))
               \<and> set (uniq (filter (\<lambda>c. c \<noteq> NaN) names)) = set names - {NaN}
               \<and> (\<forall>mk\<in>set (markers mm). mineral mk \<noteq> NaN \<longrightarrow>
                     (\<exists>i. index_of (mineral mk) (uniq (filter (\<lambda>c. c \<noteq> NaN) names)) = Some i
                        \<and> color mk = palette ! (i mod length palette)))"
    by (rule marker_colors)
next
  assume h: "rows df_sites = [r] \<and> (sel = None \<or> sel = Some ''All'')
            \<and> coordinates pflt df_sites r = Some loc
            \<and> py_int pint (row_get_default df_sites r ''Production_tonnes'' (Num 0)) = Inr t
            \<and> row_get df_sites r ''MineralName'' = Some n \<and> n \<noteq> NaN"
  from h have rw: "rows df_sites = [r]" and sl: "sel = None \<or> sel = Some ''All''"
    and co: "coordinates pflt df_sites r = Some loc"
    and pr: "py_int pint (row_get_default df_sites r ''Production_tonnes'' (Num 0)) = Inr t"
    and mi: "row_get df_sites r ''MineralName'' = Some n" and nn: "n \<noteq> NaN"
    by simp_all
  let ?mk = "\<lparr>location = loc, color = palette ! 0,
               site_name = row_get_default df_sites r ''SiteName'' (Str []),
               mineral = n,
               country = row_get_default df_sites r ''CountryName'' (Str []),
               production = t\<rparr>"
  let ?c = "(or_0 (column_mean pnum df_sites ''Latitude''),
             or_0 (column_mean pnum df_sites ''Longitude''))"
  from one_row_map [OF pal rw sl co pr mi nn, of pnum]
  have "build_map pflt pnum pint palette df_sites sel
          = Inr (Some \<lparr>center = ?c, zoom_start = 3, markers = [?mk]\<rparr>)
        \<and> color ?mk = palette ! 0 \<and> location ?mk = loc \<and> mineral ?mk = n"
    by simp
  then show "\<exists>mk c. build_map pflt pnum pint palette df_sites sel
                         = Inr (Some \<lparr>center = c, zoom_start = 3, markers = [mk]\<rparr>)
                    \<and> color mk = palette ! 0 \<and> location mk = loc \<and> mineral mk = n"
    by (intro exI)
qed

lemma three_sites_map:
  "build_map reject_all reject_all reject_all plotly three_sites None
     = Inr (Some \<lparr>center = (Float (-20), Float 30), zoom_start = 3,
            markers =
              [\<lparr>location = (Float (-10), Float 20), color = ''#636EFA'',
                 site_name = Str ''Pit'', mineral = Str ''Cobalt'', country = Str ''Zed'',
                 production = 500\<rparr>,
               \<lparr>location = (Float (-20), Float 30), color = ''#EF553B'',
                 site_name = Str ''Reef'', mineral = Str ''Gold'', country = Str ''Zed'',
                 production = 70\<rparr>,
               \<lparr>location = (Float (-30), Float 40), color = ''#636EFA'',
                 site_name = Str ''Shaft'', mineral = Str ''Cobalt'', country = Str ''Zed'',
                 production = 9\<rparr>]\<rparr>)"
  by (simp add: build_map_def three_sites_def empty_df_def select_mineral_def column_mean_def
        column_def mean_def or_0_def truthy_def mineral_names_def color_map_def cell_at_def
        cols_defs to_numeric_def coordinates_def py_float_def py_int_def row_get_def
        row_get_default_def marker_color_def plotly_def Let_def upt_rec [of 0])

theorem build_map_colors_witness:
  "(\<exists>mk c. build_map reject_all reject_all reject_all plotly pit_sites None
              = Inr (Some \<lparr>center = c, zoom_start = 3, markers = [mk]\<rparr>)
         \<and> color mk = ''#636EFA'' \<and> location mk = (Float (-10), Float 20)
         \<and> mineral mk = Str ''Cobalt'')
   \<and> (\<exists>mm. build_map reject_all reject_all reject_all plotly three_sites None = Inr (Some mm)
         \<and> map mineral (markers mm) = [Str ''Cobalt'', Str ''Gold'', Str ''Cobalt'']
         \<and> map color (markers mm) = [''#636EFA'', ''#EF553B'', ''#636EFA''])"
proof -
  let ?r = "[Num 1, Str ''Pit'', Num 1, Num 1, Num (-10), Num 20, Num 500,
             Str ''Zed'', Num 10, Num 2, Str ''P1'', Str ''Cobalt'', Str ''d'']"
  have p: "plotly \<noteq> []" by (simp add: plotly_def)
  have h: "rows pit_sites = [?r] \<and> (None = None \<or> None = Some ''All'')
       \<and> coordinates reject_all pit_sites ?r = Some (Float (-10), Float 20)
       \<and> py_int reject_all (row_get_default pit_sites ?r ''Production_tonnes'' (Num 0)) = Inr 500
       \<and> row_get pit_sites ?r ''MineralName'' = Some (Str ''Cobalt'') \<and> Str ''Cobalt'' \<noteq> NaN"
    by (simp add: pit_sites_def coordinates_def py_float_def py_int_def row_get_default_def
          row_get_def cell_at_def cols_defs)
  have z: "plotly ! 0 = ''#636EFA''" by (simp add: plotly_def)
  from build_map_colors [OF p, of reject_all reject_all reject_all pit_sites None ?r
         "(Float (-10), Float 20)" 500 "Str ''Cobalt''"] h z
  have one: "\<exists>mk c. build_map reject_all reject_all reject_all plotly pit_sites None
              = Inr (Some \<lparr>center = c, zoom_start = 3, markers = [mk]\<rparr>)
         \<and> color mk = ''#636EFA'' \<and> location mk = (Float (-10), Float 20)
         \<and> mineral mk = Str ''Cobalt''"
    by simp
  have three: "\<exists>mm. build_map reject_all reject_all reject_all plotly three_sites None = Inr (Some mm)
         \<and> map mineral (markers mm) = [Str ''Cobalt'', Str ''Gold'', Str ''Cobalt'']
         \<and> map color (markers mm) = [''#636EFA'', ''#EF553B'', ''#636EFA'']"
    by (simp add: three_sites_map)
  from one three show ?thesis by (rule conjI)
qed

end
